theory Spec2Isabelle
  imports Main "HOL-Library.Sublist"
begin

section \<open>The JavaScript string operations the plugin calls\<close>

text \<open>
  \<^verbatim>\<open>src/main.ts\<close> works on JavaScript strings with \<^verbatim>\<open>includes\<close>, \<^verbatim>\<open>replace\<close> and
  \<^verbatim>\<open>+\<close>. A JavaScript string is a sequence of code units; it is modelled as a
  \<^typ>\<open>string\<close> (a list of characters), concatenation as \<open>@\<close>. The three
  operations compare code units only for equality, and the only code units they
  single out (\<^verbatim>\<open>$\<close>, \<^verbatim>\<open>&\<close>, the backtick, the apostrophe, \<^verbatim>\<open><\<close> and the decimal
  digits) are ASCII.
\<close>

definition substring :: "string \<Rightarrow> nat \<Rightarrow> nat \<Rightarrow> string" where
  "substring s from to = take (to - from) (drop from s)"

text \<open>
  The abstract operation \<^verbatim>\<open>StringIndexOf(string, searchValue, fromIndex)\<close> of
  ECMAScript: the least index from \<open>fromIndex\<close> at which \<open>searchValue\<close> occurs,
  \<open>None\<close> for "not found". An empty \<open>searchValue\<close> is found at \<open>fromIndex\<close>.
\<close>

definition StringIndexOf :: "string \<Rightarrow> string \<Rightarrow> nat \<Rightarrow> nat option" where
  "StringIndexOf s searchValue fromIndex =
     (let len = length s in
      if searchValue = [] \<and> fromIndex \<le> len then Some fromIndex
      else
        let searchLen = length searchValue in
        if len < searchLen then None
        else List.find (\<lambda>i. substring s i (i + searchLen) = searchValue)
               [fromIndex ..< Suc (len - searchLen)])"

text \<open>\<^verbatim>\<open>String.prototype.includes(searchString)\<close>, with the default position 0.\<close>

definition String_includes :: "string \<Rightarrow> string \<Rightarrow> bool" where
  "String_includes s searchString = (StringIndexOf s searchString 0 \<noteq> None)"

definition isDigit :: "char \<Rightarrow> bool" where
  "isDigit c = (c \<in> set ''0123456789'')"

text \<open>
  The abstract operation \<^verbatim>\<open>GetSubstitution(matched, str, position, captures,
  namedCaptures, replacementTemplate)\<close> of ECMAScript, for a string pattern: there
  are no captures and no named captures. The template is read from the left:
  \<^verbatim>\<open>$$\<close> gives one \<^verbatim>\<open>$\<close>, \<^verbatim>\<open>$`\<close> the text before the match, \<^verbatim>\<open>$&\<close> the match,
  \<^verbatim>\<open>$'\<close> the text after the match; \<^verbatim>\<open>$\<close> before a digit and \<^verbatim>\<open>$<\<close> stand for
  themselves when there is no capture to refer to (a second digit after \<^verbatim>\<open>$\<close> is
  then copied as well, here by the step that follows); every other code unit is
  copied.
\<close>

fun GetSubstitution :: "string \<Rightarrow> string \<Rightarrow> nat \<Rightarrow> string \<Rightarrow> string" where
  "GetSubstitution matched str position [] = []"
| "GetSubstitution matched str position [c] = [c]"
| "GetSubstitution matched str position (c # d # rest) =
     (if c = CHR ''$'' \<and> d = CHR ''$'' then
        CHR ''$'' # GetSubstitution matched str position rest
      else if c = CHR ''$'' \<and> d = CHR 0x60 then
        substring str 0 position @ GetSubstitution matched str position rest
      else if c = CHR ''$'' \<and> d = CHR ''&'' then
        matched @ GetSubstitution matched str position rest
      else if c = CHR ''$'' \<and> d = CHR 0x27 then
        drop (min (position + length matched) (length str)) str
          @ GetSubstitution matched str position rest
      else if c = CHR ''$'' \<and> isDigit d then
        c # d # GetSubstitution matched str position rest
      else if c = CHR ''$'' \<and> d = CHR ''<'' then
        c # d # GetSubstitution matched str position rest
      else c # GetSubstitution matched str position (d # rest))"

text \<open>
  \<^verbatim>\<open>String.prototype.replace(searchValue, replaceValue)\<close> with two strings: only
  the first occurrence of \<open>searchValue\<close> is replaced, by the substitution that
  \<open>replaceValue\<close> describes; a string without the pattern comes back as it is.
\<close>

definition String_replace :: "string \<Rightarrow> string \<Rightarrow> string \<Rightarrow> string" where
  "String_replace s searchString replaceValue =
     (case StringIndexOf s searchString 0 of
        None \<Rightarrow> s
      | Some position \<Rightarrow>
          let preceding = substring s 0 position;
              following = drop (position + length searchString) s;
              replacement = GetSubstitution searchString s position replaceValue
          in preceding @ replacement @ following)"

section \<open>The section append of \<^verbatim>\<open>addLinkInMonthlyNote\<close>\<close>

text \<open>
  Lines 144 to 155 of \<^verbatim>\<open>src/main.ts\<close>, the body of the callback that receives the
  text of the monthly note. \<open>newNoteText\<close> is the text handed to
  \<^verbatim>\<open>vault.modify\<close>, \<open>None\<close> on the path that does not call it (heading and
  link both present).
\<close>

definition newNoteText :: "string \<Rightarrow> string \<Rightarrow> string \<Rightarrow> string \<Rightarrow> string option" where
  "newNoteText previousNoteText reviewHeading reviewLinePrefix noteLink =
     (let link = reviewLinePrefix @ ''[['' @ noteLink @ '']]'' in
      if String_includes previousNoteText reviewHeading then
        (if \<not> String_includes previousNoteText link then
           Some (String_replace previousNoteText reviewHeading
                   (reviewHeading @ ''\<newline>'' @ link))
         else None)
      else
        Some (previousNoteText @ ''\<newline>'' @ reviewHeading @ ''\<newline>''
                @ reviewLinePrefix @ ''[['' @ noteLink @ '']]''))"

text \<open>
  The text of the monthly note once the callback has run: the text written, or
  the text read when nothing is written.
\<close>

definition computeAppend :: "string \<Rightarrow> string \<Rightarrow> string \<Rightarrow> string \<Rightarrow> string" where
  "computeAppend currentText heading linePrefix linkText =
     (case newNoteText currentText heading linePrefix linkText of
        None \<Rightarrow> currentText
      | Some t \<Rightarrow> t)"


section \<open>Notions the properties are stated with\<close>


text \<open>The positions at which \<open>pat\<close> occurs in \<open>s\<close>, in ascending order.\<close>

definition occurrences :: "string \<Rightarrow> string \<Rightarrow> nat list" where
  "occurrences pat s =
     (if length s < length pat then []
      else filter (\<lambda>i. substring s i (i + length pat) = pat)
             [0 ..< Suc (length s - length pat)])"

text \<open>
  A text overlaps itself when a proper, non-empty end of it is also its beginning;
  a copy of it can then start inside another copy.
\<close>

definition selfOverlap :: "string \<Rightarrow> bool" where
  "selfOverlap s = (\<exists>k \<in> set [1 ..< length s]. drop k s = take (length s - k) s)"

text \<open>
  The link line occurs exactly once under the section heading: among the positions
  from the end of the first occurrence of the heading to the end of the note, the
  link line occurs at one only, and that one is the line directly under the
  heading (after the heading and one newline). A text without the heading has no
  link line under it.
\<close>

definition linkOnceUnderHeading :: "string \<Rightarrow> string \<Rightarrow> string \<Rightarrow> bool" where
  "linkOnceUnderHeading heading line text =
     (case StringIndexOf text heading 0 of
        None \<Rightarrow> False
      | Some i \<Rightarrow>
          filter (\<lambda>j. i + length heading \<le> j) (occurrences line text)
            = [i + length heading + 1])"

section \<open>The plugin's actions on the host\<close>

text \<open>
  The plugin reaches the vault, the periodic notes and the user only through calls
  into the host application. The model keeps the vault (path to text) and a log of
  the calls made, in order. What the host answers at one invocation is a record
  of type \<open>host\<close>: a call that can throw answers \<open>Inl\<close> with the error.
\<close>

record TFile =
  path :: string
  basename :: string

record moment =
  year :: nat
  month :: nat
  date :: nat
  millis :: nat

definition startOf_month :: "moment \<Rightarrow> moment" where
  "startOf_month d = d\<lparr>date := 1, millis := 0\<rparr>"

record IReviewSettings =
  dailyNotesFolder :: string
  reviewSectionHeading :: string
  linePrefix :: string

definition DEFAULT_SETTINGS :: IReviewSettings where
  "DEFAULT_SETTINGS =
     \<lparr>dailyNotesFolder = '''', reviewSectionHeading = ''## Links'', linePrefix = ''- ''\<rparr>"

datatype event =
    CallGetAllMonthlyNotes
  | CallGetMonthlyNote moment
  | CallCreateMonthlyNote moment
  | Notice string
  | VaultRead string
  | VaultModify string string

type_synonym exn = string

record host =
  now :: moment
  getAllMonthlyNotes :: "exn + (string \<rightharpoonup> TFile)"
  getMonthlyNote :: "moment \<Rightarrow> (string \<rightharpoonup> TFile) \<Rightarrow> TFile option"
  createMonthlyNote :: "moment \<Rightarrow> exn + (TFile \<times> string)"
  periodicNotes :: bool
  settings :: IReviewSettings
  displayText :: string
  linktext :: string

record world =
  vault :: "string \<rightharpoonup> string"
  calls :: "event list"

definition emit :: "event \<Rightarrow> world \<Rightarrow> world" where
  "emit e w = w\<lparr>calls := calls w @ [e]\<rparr>"

definition vault_modify :: "TFile \<Rightarrow> string \<Rightarrow> world \<Rightarrow> world" where
  "vault_modify file text w =
     emit (VaultModify (path file) text) (w\<lparr>vault := (vault w)(path file \<mapsto> text)\<rparr>)"

text \<open>
  The two ways \<^verbatim>\<open>getOrCreateMonthlyNote\<close> ends without a note: \<^verbatim>\<open>return;\<close> after
  the notice that the folder was not found, \<^verbatim>\<open>return null;\<close> after the notice that
  the note could not be created.
\<close>

datatype failure = CollectionUnavailable | CreationFailed

text \<open>
  \<^verbatim>\<open>getOrCreateMonthlyNote\<close>, lines 20 to 43. A created note enters the vault with
  the text the host gave it; a creation that throws leaves the vault as it was.
\<close>

definition getOrCreateMonthlyNote :: "host \<Rightarrow> world \<Rightarrow> (failure + TFile) \<times> world" where
  "getOrCreateMonthlyNote h w =
     (let startOfMonth = startOf_month (now h);
          w1 = emit CallGetAllMonthlyNotes w
      in case getAllMonthlyNotes h of
           Inl err \<Rightarrow>
             (Inl CollectionUnavailable,
              emit (Notice ''Failed to find your monthly notes folder'') w1)
         | Inr allNotes \<Rightarrow>
             (let w2 = emit (CallGetMonthlyNote startOfMonth) w1
              in case getMonthlyNote h startOfMonth allNotes of
                   Some note \<Rightarrow> (Inr note, w2)
                 | None \<Rightarrow>
                     (let w3 = emit (CallCreateMonthlyNote startOfMonth) w2
                      in case createMonthlyNote h startOfMonth of
                           Inl err \<Rightarrow>
                             (Inl CreationFailed,
                              emit (Notice ''Failed to create monthly note in notes folder'') w3)
                         | Inr (note, text) \<Rightarrow>
                             (Inr note, w3\<lparr>vault := (vault w3)(path note \<mapsto> text)\<rparr>))))"

text \<open>
  \<^verbatim>\<open>addLinkInMonthlyNote\<close>, lines 115 to 159. \<^verbatim>\<open>vault.read\<close> of a path that is not
  in the vault rejects, and the callback does not run.
\<close>

definition addLinkInMonthlyNote :: "host \<Rightarrow> world \<Rightarrow> world" where
  \<open>addLinkInMonthlyNote h w =
     (if \<not> periodicNotes h then
        emit (Notice ''The Periodic Notes plugin is not available. Please make sure it is installed and enabled before trying again.'') w
      else
        case getOrCreateMonthlyNote h w of
          (Inl failed, w1) \<Rightarrow> w1
        | (Inr monthyNoteFile, w1) \<Rightarrow>
            (let reviewHeading = reviewSectionHeading (settings h);
                 reviewLinePrefix = linePrefix (settings h);
                 noteName = displayText h;
                 noteLink = linktext h;
                 w2 = emit (VaultRead (path monthyNoteFile)) w1
             in case vault w2 (path monthyNoteFile) of
                  None \<Rightarrow> w2
                | Some result \<Rightarrow>
                    (let w3 = (case newNoteText result reviewHeading reviewLinePrefix noteLink of
                                 None \<Rightarrow> w2
                               | Some text \<Rightarrow> vault_modify monthyNoteFile text w2)
                     in emit (Notice (''Add note "'' @ noteName @ ''" for review on ''
                                        @ basename monthyNoteFile @ ''.'')) w3)))\<close>

text \<open>How often creation of a monthly note was called, by the log.\<close>

definition createCalls :: "event list \<Rightarrow> nat" where
  "createCalls es =
     length (filter (\<lambda>e. case e of CallCreateMonthlyNote d \<Rightarrow> True | _ \<Rightarrow> False) es)"

text \<open>The reads and writes of note text, by the log.\<close>

definition textAccesses :: "event list \<Rightarrow> event list" where
  "textAccesses es =
     filter (\<lambda>e. case e of VaultRead p \<Rightarrow> True | VaultModify p t \<Rightarrow> True | _ \<Rightarrow> False) es"

text \<open>A host and a world to run the actions on.\<close>

definition marchNote :: TFile where
  "marchNote = \<lparr>path = ''monthly/2024-03.md'', basename = ''2024-03''\<rparr>"

definition exampleHost :: "(exn + (string \<rightharpoonup> TFile)) \<Rightarrow> (exn + TFile \<times> string) \<Rightarrow> host" where
  "exampleHost listing creation =
     \<lparr>now = \<lparr>year = 2024, month = 3, date = 17, millis = 0\<rparr>,
      getAllMonthlyNotes = listing,
      getMonthlyNote = (\<lambda>d notes. notes ''2024-03''),
      createMonthlyNote = (\<lambda>d. creation),
      periodicNotes = True,
      settings = DEFAULT_SETTINGS,
      displayText = ''A'',
      linktext = ''A''\<rparr>"

definition emptyWorld :: world where
  "emptyWorld = \<lparr>vault = Map.empty, calls = []\<rparr>"

section \<open>Facts about the string operations\<close>

lemma sublist_iff_occurs:
  "sublist pat s \<longleftrightarrow> (\<exists>i. i + length pat \<le> length s \<and> take (length pat) (drop i s) = pat)"
proof
  assume "sublist pat s"
  then obtain ps ss where s: "s = ps @ pat @ ss" by (auto simp: sublist_def)
  have "length ps + length pat \<le> length s \<and> take (length pat) (drop (length ps) s) = pat"
    by (simp add: s)
  then show "\<exists>i. i + length pat \<le> length s \<and> take (length pat) (drop i s) = pat" by blast
next
  assume "\<exists>i. i + length pat \<le> length s \<and> take (length pat) (drop i s) = pat"
  then obtain i where i: "take (length pat) (drop i s) = pat" by blast
  have "s = take i s @ drop i s" by simp
  also have "drop i s = take (length pat) (drop i s) @ drop (length pat) (drop i s)"
    by (simp only: append_take_drop_id)
  finally have "s = take i s @ pat @ drop (length pat) (drop i s)" using i by simp
  then show "sublist pat s" unfolding sublist_def by blast
qed





lemma StringIndexOf_None_iff:
  "StringIndexOf s pat 0 = None \<longleftrightarrow> \<not> sublist pat s"
proof (cases "pat = []")
  case True
  then show ?thesis by (simp add: StringIndexOf_def)
next
  case False
  show ?thesis
  proof (cases "length s < length pat")
    case True
    then have "\<not> sublist pat s" using sublist_length_le[of pat s] by auto
    then show ?thesis using True False by (simp add: StringIndexOf_def)
  next
    case le: False
    have "StringIndexOf s pat 0 = None \<longleftrightarrow>
       (\<forall>i < Suc (length s - length pat). take (length pat) (drop i s) \<noteq> pat)"
      using False le
      by (auto simp add: StringIndexOf_def Let_def substring_def find_None_iff simp del: upt_Suc)
    also have "\<dots> \<longleftrightarrow> \<not> (\<exists>i. i + length pat \<le> length s \<and> take (length pat) (drop i s) = pat)"
      using le by (auto simp: less_Suc_eq_le)
    finally show ?thesis by (simp add: sublist_iff_occurs)
  qed
qed

lemma String_includes_iff: "String_includes s pat \<longleftrightarrow> sublist pat s"
  by (simp add: String_includes_def StringIndexOf_None_iff)





lemma newNoteText_present:
  assumes "String_includes t h" "String_includes t (p @ ''[['' @ l @ '']]'')"
  shows "newNoteText t h p l = None"
  using assms by (simp add: newNoteText_def)

lemma computeAppend_present:
  assumes "String_includes t h" "String_includes t (p @ ''[['' @ l @ '']]'')"
  shows "computeAppend t h p l = t"
  using assms by (simp add: computeAppend_def newNoteText_present)

lemma computeAppend_absent:
  assumes "\<not> String_includes t h"
  shows "computeAppend t h p l = t @ ''\<newline>'' @ h @ ''\<newline>'' @ p @ ''[['' @ l @ '']]''"
  using assms by (simp add: computeAppend_def newNoteText_def)





section \<open>Occurrences of the link line\<close>

lemma set_occurrences:
  "i \<in> set (occurrences pat s) \<longleftrightarrow>
     i + length pat \<le> length s \<and> take (length pat) (drop i s) = pat"
  by (auto simp: occurrences_def substring_def simp del: upt_Suc)

lemma distinct_occurrences: "distinct (occurrences pat s)"
  by (simp add: occurrences_def del: upt_Suc)

lemma occurrences_ge2:
  assumes "i \<in> set (occurrences pat s)" "j \<in> set (occurrences pat s)" "i \<noteq> j"
  shows "2 \<le> length (occurrences pat s)"
proof -
  have "card {i, j} \<le> card (set (occurrences pat s))"
    by (rule card_mono) (use assms in auto)
  moreover have "card {i, j} = 2" using assms(3) by simp
  moreover have "card (set (occurrences pat s)) = length (occurrences pat s)"
    by (rule distinct_card[OF distinct_occurrences])
  ultimately show ?thesis by simp
qed








section \<open>Facts about the log\<close>

lemma createCalls_append: "createCalls (es @ fs) = createCalls es + createCalls fs"
  by (simp add: createCalls_def)

text \<open>
  With the month's note in the collection and its text in the vault, the action
  leaves in the vault, for that note, what \<open>computeAppend\<close> gives on its text.
\<close>

lemma addLinkInMonthlyNote_text:
  assumes "periodicNotes h"
    and "getAllMonthlyNotes h = Inr allNotes"
    and "getMonthlyNote h (startOf_month (now h)) allNotes = Some file"
    and "vault w (path file) = Some t"
  shows "vault (addLinkInMonthlyNote h w) =
           (vault w)(path file \<mapsto>
              computeAppend t (reviewSectionHeading (settings h)) (linePrefix (settings h))
                (linktext h))"
proof -
  have g: "getOrCreateMonthlyNote h w =
      (Inr file, emit (CallGetMonthlyNote (startOf_month (now h)))
                   (emit CallGetAllMonthlyNotes w))"
    using assms(2,3) by (simp add: getOrCreateMonthlyNote_def Let_def)
  show ?thesis
  proof (cases "newNoteText t (reviewSectionHeading (settings h)) (linePrefix (settings h))
                  (linktext h)")
    case None
    then show ?thesis
      using assms(1,4) g
      by (simp add: addLinkInMonthlyNote_def Let_def emit_def computeAppend_def fun_upd_idem)
  next
    case (Some written)
    then show ?thesis
      using assms(1,4) g
      by (simp add: addLinkInMonthlyNote_def Let_def emit_def computeAppend_def vault_modify_def)
  qed
qed

section \<open>The section append\<close>

text \<open>
  C1. Appending twice, the second time on the result of the first, should give
  the text that appending once gives. \<^verbatim>\<open>replace\<close> reads \<^verbatim>\<open>$$\<close> in its second argument
  as one \<^verbatim>\<open>$\<close>: for the note \<^verbatim>\<open>Cost $$\<close> the line written under the heading is
  \<^verbatim>\<open>- [[Cost $]]\<close>, the test on line 148 looks for \<^verbatim>\<open>- [[Cost $$]]\<close>, does not find
  it, and the second run inserts the line again.
\<close>

theorem append_twice_adds_twice:
  "computeAppend ''## Links'' ''## Links'' ''- '' ''Cost $$'' = ''## Links\<newline>- [[Cost $]]''
   \<and> computeAppend (computeAppend ''## Links'' ''## Links'' ''- '' ''Cost $$'')
        ''## Links'' ''- '' ''Cost $$''
      = ''## Links\<newline>- [[Cost $]]\<newline>- [[Cost $]]''"
  by code_simp

text \<open>
  C2. With the heading present and the link line absent, the result should be the
  text with the first occurrence of the heading replaced by the heading, a newline
  and the link line. For the note \<^verbatim>\<open>R$&D\<close> the inserted line is not the link line:
  \<^verbatim>\<open>$&\<close> is expanded to the matched heading.
\<close>

theorem insert_expands_pattern:
  "sublist ''## Links'' ''## Links\<newline>foo''
   \<and> \<not> sublist ''- [[R$&D]]'' ''## Links\<newline>foo''
   \<and> computeAppend ''## Links\<newline>foo'' ''## Links'' ''- '' ''R$&D''
       = ''## Links\<newline>- [[R## LinksD]]\<newline>foo''"
  by code_simp

text \<open>
  C3. When the text contains the heading and contains the link line anywhere, the
  callback writes nothing and the text stays as it is.
\<close>

theorem present_link_unchanged:
  assumes "sublist heading currentText"
    and "sublist (linePrefix' @ ''[['' @ linkText @ '']]'') currentText"
  shows "newNoteText currentText heading linePrefix' linkText = None
         \<and> computeAppend currentText heading linePrefix' linkText = currentText"
  using assms
  by (simp add: String_includes_iff[symmetric] newNoteText_present computeAppend_present)

theorem present_link_unchanged_witness:
  "sublist ''## Links'' ''see - [[A]]\<newline>## Links\<newline>foo''
   \<and> sublist (''- '' @ ''[['' @ ''A'' @ '']]'') ''see - [[A]]\<newline>## Links\<newline>foo''
   \<and> newNoteText ''see - [[A]]\<newline>## Links\<newline>foo'' ''## Links'' ''- '' ''A'' = None
   \<and> computeAppend ''see - [[A]]\<newline>## Links\<newline>foo'' ''## Links'' ''- '' ''A''
       = ''see - [[A]]\<newline>## Links\<newline>foo''"
proof -
  have h1: "sublist ''## Links'' ''see - [[A]]\<newline>## Links\<newline>foo''" by code_simp
  have h2: "sublist (''- '' @ ''[['' @ ''A'' @ '']]'') ''see - [[A]]\<newline>## Links\<newline>foo''"
    by code_simp
  from present_link_unchanged[OF h1 h2] h1 h2 show ?thesis by blast
qed

text \<open>
  C4. When the text does not contain the heading, the result is the text, a
  newline, the heading, a newline and the link line: one newline before the
  heading whether or not the text ends in one. On the empty text this gives a
  newline, \<^verbatim>\<open>## Links\<close>, a newline and \<^verbatim>\<open>- [[A]]\<close>.
\<close>

theorem absent_heading_appends_section:
  "(\<not> sublist heading currentText \<longrightarrow>
      computeAppend currentText heading linePrefix' linkText
        = currentText @ ''\<newline>'' @ heading @ ''\<newline>'' @ linePrefix' @ ''[['' @ linkText @ '']]'')
   \<and> computeAppend '''' ''## Links'' ''- '' ''A'' = ''\<newline>## Links\<newline>- [[A]]''"
proof
  show "\<not> sublist heading currentText \<longrightarrow>
      computeAppend currentText heading linePrefix' linkText
        = currentText @ ''\<newline>'' @ heading @ ''\<newline>'' @ linePrefix' @ ''[['' @ linkText @ '']]''"
    by (simp add: String_includes_iff[symmetric] computeAppend_absent)
  show "computeAppend '''' ''## Links'' ''- '' ''A'' = ''\<newline>## Links\<newline>- [[A]]''"
    by code_simp
qed

theorem absent_heading_appends_section_witness:
  "\<not> sublist ''## Links'' ''Some text\<newline>''
   \<and> computeAppend ''Some text\<newline>'' ''## Links'' ''- '' ''A''
       = ''Some text\<newline>\<newline>## Links\<newline>- [[A]]''"
proof -
  have h: "\<not> sublist ''## Links'' ''Some text\<newline>''" by code_simp
  from absent_heading_appends_section[of "''## Links''" "''Some text\<newline>''" "''- ''" "''A''"] h
  show ?thesis by simp
qed




text \<open>
  Why the heading is taken without a line break and the link line without an
  overlap. With the prefix \<^verbatim>\<open>]]\<close> the link line for the note \<^verbatim>\<open>x\<close> overlaps itself,
  and inserted before \<^verbatim>\<open>[[x]]\<close> it occurs twice under the heading. A heading of
  two lines can begin in the old text and end in the appended one; the link line
  is then not on the line under its first occurrence.
\<close>

lemma overlapping_line_occurs_twice:
  "selfOverlap '']][[x]]''
   \<and> computeAppend ''## Links[[x]]'' ''## Links'' '']]'' ''x'' = ''## Links\<newline>]][[x]][[x]]''
   \<and> occurrences '']][[x]]'' (computeAppend ''## Links[[x]]'' ''## Links'' '']]'' ''x'')
       = [9, 14]
   \<and> \<not> linkOnceUnderHeading ''## Links'' '']][[x]]''
         (computeAppend ''## Links[[x]]'' ''## Links'' '']]'' ''x'')"
  by code_simp

lemma heading_with_newline_found_early:
  "computeAppend ''a'' ''a\<newline>a'' ''- '' ''A'' = ''a\<newline>a\<newline>a\<newline>- [[A]]''
   \<and> StringIndexOf (computeAppend ''a'' ''a\<newline>a'' ''- '' ''A'') ''a\<newline>a'' 0 = Some 0
   \<and> occurrences ''- [[A]]'' (computeAppend ''a'' ''a\<newline>a'' ''- '' ''A'') = [6]
   \<and> \<not> linkOnceUnderHeading ''a\<newline>a'' ''- [[A]]''
         (computeAppend ''a'' ''a\<newline>a'' ''- '' ''A'')"
  by code_simp

section \<open>Resolving the monthly note\<close>

text \<open>
  C6. When the collection has a note for the month, \<^verbatim>\<open>getOrCreateMonthlyNote\<close>
  returns it, calls no creation and leaves the vault alone. When the collection has
  none, creation is called exactly once, and the note it produces is returned.
\<close>

theorem resolve_existing_or_created:
  assumes "getAllMonthlyNotes h = Inr allNotes"
  shows "(getMonthlyNote h (startOf_month (now h)) allNotes = Some existing \<longrightarrow>
            fst (getOrCreateMonthlyNote h w) = Inr existing
            \<and> createCalls (calls (snd (getOrCreateMonthlyNote h w))) = createCalls (calls w)
            \<and> vault (snd (getOrCreateMonthlyNote h w)) = vault w)
       \<and> (getMonthlyNote h (startOf_month (now h)) allNotes = None \<longrightarrow>
            createCalls (calls (snd (getOrCreateMonthlyNote h w))) = createCalls (calls w) + 1
            \<and> (createMonthlyNote h (startOf_month (now h)) = Inr (created, initialText) \<longrightarrow>
                 fst (getOrCreateMonthlyNote h w) = Inr created))"
  using assms
  by (auto simp: getOrCreateMonthlyNote_def Let_def emit_def createCalls_append
           split: sum.splits)
     (simp_all add: createCalls_def)

theorem resolve_existing_or_created_witness:
  "getAllMonthlyNotes (exampleHost (Inr [''2024-03'' \<mapsto> marchNote]) (Inl ''unused''))
     = Inr [''2024-03'' \<mapsto> marchNote]
   \<and> fst (getOrCreateMonthlyNote
            (exampleHost (Inr [''2024-03'' \<mapsto> marchNote]) (Inl ''unused'')) emptyWorld)
       = Inr marchNote
   \<and> createCalls (calls (snd (getOrCreateMonthlyNote
            (exampleHost (Inr [''2024-03'' \<mapsto> marchNote]) (Inl ''unused'')) emptyWorld))) = 0
   \<and> getAllMonthlyNotes (exampleHost (Inr Map.empty) (Inr (marchNote, ''# March'')))
       = Inr Map.empty
   \<and> fst (getOrCreateMonthlyNote
            (exampleHost (Inr Map.empty) (Inr (marchNote, ''# March''))) emptyWorld)
       = Inr marchNote
   \<and> createCalls (calls (snd (getOrCreateMonthlyNote
            (exampleHost (Inr Map.empty) (Inr (marchNote, ''# March''))) emptyWorld))) = 1"
proof -
  let ?found = "exampleHost (Inr [''2024-03'' \<mapsto> marchNote]) (Inl ''unused'')"
  let ?missing = "exampleHost (Inr Map.empty) (Inr (marchNote, ''# March''))"
  have a: "getAllMonthlyNotes ?found = Inr [''2024-03'' \<mapsto> marchNote]"
    by (simp add: exampleHost_def)
  have b: "getMonthlyNote ?found (startOf_month (now ?found)) [''2024-03'' \<mapsto> marchNote]
             = Some marchNote"
    by (simp add: exampleHost_def)
  have c: "getAllMonthlyNotes ?missing = Inr Map.empty"
    by (simp add: exampleHost_def)
  have d: "getMonthlyNote ?missing (startOf_month (now ?missing)) Map.empty = None"
    by (simp add: exampleHost_def)
  have e: "createMonthlyNote ?missing (startOf_month (now ?missing)) = Inr (marchNote, ''# March'')"
    by (simp add: exampleHost_def)
  have z: "createCalls (calls emptyWorld) = 0"
    by (simp add: emptyWorld_def createCalls_def)
  from resolve_existing_or_created[OF a, of marchNote emptyWorld] b z
  have f: "fst (getOrCreateMonthlyNote ?found emptyWorld) = Inr marchNote
     \<and> createCalls (calls (snd (getOrCreateMonthlyNote ?found emptyWorld))) = 0"
    by simp
  from resolve_existing_or_created[OF c, of marchNote emptyWorld marchNote "''# March''"] d e z
  have g: "fst (getOrCreateMonthlyNote ?missing emptyWorld) = Inr marchNote
     \<and> createCalls (calls (snd (getOrCreateMonthlyNote ?missing emptyWorld))) = 1"
    by simp
  from a c f g show ?thesis by blast
qed

text \<open>
  C7. When listing the monthly notes throws, the result is
  \<open>CollectionUnavailable\<close>: the user is notified, nothing else is called, and
  creation is not attempted.
\<close>

theorem resolve_collection_unavailable:
  assumes "getAllMonthlyNotes h = Inl err"
  shows "getOrCreateMonthlyNote h w =
           (Inl CollectionUnavailable,
            w\<lparr>calls := calls w @ [CallGetAllMonthlyNotes,
                                  Notice ''Failed to find your monthly notes folder'']\<rparr>)
         \<and> createCalls (calls (snd (getOrCreateMonthlyNote h w))) = createCalls (calls w)
         \<and> vault (snd (getOrCreateMonthlyNote h w)) = vault w"
  using assms
  by (simp add: getOrCreateMonthlyNote_def Let_def emit_def createCalls_def)

theorem resolve_collection_unavailable_witness:
  "getAllMonthlyNotes (exampleHost (Inl ''no folder'') (Inr (marchNote, ''# March'')))
     = Inl ''no folder''
   \<and> getOrCreateMonthlyNote (exampleHost (Inl ''no folder'') (Inr (marchNote, ''# March''))) emptyWorld
       = (Inl CollectionUnavailable,
          emptyWorld\<lparr>calls := calls emptyWorld @ [CallGetAllMonthlyNotes,
                                  Notice ''Failed to find your monthly notes folder'']\<rparr>)
   \<and> createCalls (calls (snd (getOrCreateMonthlyNote
          (exampleHost (Inl ''no folder'') (Inr (marchNote, ''# March''))) emptyWorld)))
       = createCalls (calls emptyWorld)
   \<and> vault (snd (getOrCreateMonthlyNote
          (exampleHost (Inl ''no folder'') (Inr (marchNote, ''# March''))) emptyWorld))
       = vault emptyWorld"
proof -
  have a: "getAllMonthlyNotes (exampleHost (Inl ''no folder'') (Inr (marchNote, ''# March'')))
     = Inl ''no folder''"
    by (simp add: exampleHost_def)
  from resolve_collection_unavailable[OF a, of emptyWorld] a show ?thesis by blast
qed

text \<open>
  C8. When creation throws, the result is \<open>CreationFailed\<close> and
  \<^verbatim>\<open>addLinkInMonthlyNote\<close> ends there: after the notice no note text is read or
  written, and the vault is what it was.
\<close>

theorem creation_failure_is_terminal:
  assumes "periodicNotes h"
    and "getAllMonthlyNotes h = Inr allNotes"
    and "getMonthlyNote h (startOf_month (now h)) allNotes = None"
    and "createMonthlyNote h (startOf_month (now h)) = Inl err"
  shows "fst (getOrCreateMonthlyNote h w) = Inl CreationFailed
         \<and> calls (addLinkInMonthlyNote h w) =
             calls w @ [CallGetAllMonthlyNotes,
                        CallGetMonthlyNote (startOf_month (now h)),
                        CallCreateMonthlyNote (startOf_month (now h)),
                        Notice ''Failed to create monthly note in notes folder'']
         \<and> textAccesses (calls (addLinkInMonthlyNote h w)) = textAccesses (calls w)
         \<and> vault (addLinkInMonthlyNote h w) = vault w"
  using assms
  by (simp add: addLinkInMonthlyNote_def getOrCreateMonthlyNote_def Let_def emit_def
        textAccesses_def)

theorem creation_failure_is_terminal_witness:
  "periodicNotes (exampleHost (Inr Map.empty) (Inl ''disk full''))
   \<and> getAllMonthlyNotes (exampleHost (Inr Map.empty) (Inl ''disk full'')) = Inr Map.empty
   \<and> getMonthlyNote (exampleHost (Inr Map.empty) (Inl ''disk full''))
         (startOf_month (now (exampleHost (Inr Map.empty) (Inl ''disk full'')))) Map.empty = None
   \<and> createMonthlyNote (exampleHost (Inr Map.empty) (Inl ''disk full''))
         (startOf_month (now (exampleHost (Inr Map.empty) (Inl ''disk full'')))) = Inl ''disk full''
   \<and> fst (getOrCreateMonthlyNote (exampleHost (Inr Map.empty) (Inl ''disk full'')) emptyWorld)
       = Inl CreationFailed
   \<and> textAccesses (calls (addLinkInMonthlyNote (exampleHost (Inr Map.empty) (Inl ''disk full'')) emptyWorld))
       = textAccesses (calls emptyWorld)
   \<and> vault (addLinkInMonthlyNote (exampleHost (Inr Map.empty) (Inl ''disk full'')) emptyWorld)
       = vault emptyWorld"
proof -
  let ?h = "exampleHost (Inr Map.empty) (Inl ''disk full'')"
  have a: "periodicNotes ?h" by (simp add: exampleHost_def)
  have b: "getAllMonthlyNotes ?h = Inr Map.empty" by (simp add: exampleHost_def)
  have c: "getMonthlyNote ?h (startOf_month (now ?h)) Map.empty = None"
    by (simp add: exampleHost_def)
  have d: "createMonthlyNote ?h (startOf_month (now ?h)) = Inl ''disk full''"
    by (simp add: exampleHost_def)
  from creation_failure_is_terminal[OF a b c d, of emptyWorld] a b c d show ?thesis by blast
qed

section \<open>A link line without its heading\<close>

text \<open>
  C10. The test for a link line that is already there is made only when the
  heading is present: a text without the heading that holds the link line gets the
  new section all the same, and then holds the link line at least twice.
\<close>

theorem absent_heading_duplicates_link:
  assumes "\<not> sublist heading currentText"
    and "sublist (linePrefix' @ ''[['' @ linkText @ '']]'') currentText"
  shows "computeAppend currentText heading linePrefix' linkText
           = currentText @ ''\<newline>'' @ heading @ ''\<newline>'' @ linePrefix' @ ''[['' @ linkText @ '']]''
         \<and> 2 \<le> length (occurrences (linePrefix' @ ''[['' @ linkText @ '']]'')
                          (computeAppend currentText heading linePrefix' linkText))"
proof -
  let ?line = "linePrefix' @ ''[['' @ linkText @ '']]''"
  let ?mid = "currentText @ ''\<newline>'' @ heading @ ''\<newline>''"
  have eq: "computeAppend currentText heading linePrefix' linkText = ?mid @ ?line"
    using assms(1) by (simp add: String_includes_iff[symmetric] computeAppend_absent)
  from assms(2) obtain i where i: "i + length ?line \<le> length currentText"
      "take (length ?line) (drop i currentText) = ?line"
    unfolding sublist_iff_occurs by blast
  have "take (length ?line) (drop i (?mid @ ?line)) = ?line"
    using i by simp
  then have a: "i \<in> set (occurrences ?line (?mid @ ?line))"
    using i(1) unfolding set_occurrences by simp
  have b: "length ?mid \<in> set (occurrences ?line (?mid @ ?line))"
    unfolding set_occurrences by simp
  have "i \<noteq> length ?mid" using i(1) by simp
  from occurrences_ge2[OF a b this] eq show ?thesis by simp
qed

theorem absent_heading_duplicates_link_witness:
  "\<not> sublist ''## Links'' ''see - [[A]]''
   \<and> sublist (''- '' @ ''[['' @ ''A'' @ '']]'') ''see - [[A]]''
   \<and> computeAppend ''see - [[A]]'' ''## Links'' ''- '' ''A''
       = ''see - [[A]]'' @ ''\<newline>'' @ ''## Links'' @ ''\<newline>'' @ ''- '' @ ''[['' @ ''A'' @ '']]''
   \<and> 2 \<le> length (occurrences (''- '' @ ''[['' @ ''A'' @ '']]'')
                    (computeAppend ''see - [[A]]'' ''## Links'' ''- '' ''A''))"
proof -
  have h1: "\<not> sublist ''## Links'' ''see - [[A]]''" by code_simp
  have h2: "sublist (''- '' @ ''[['' @ ''A'' @ '']]'') ''see - [[A]]''" by code_simp
  from absent_heading_duplicates_link[OF h1 h2] h1 h2 show ?thesis by blast
qed

end
